theory Spec2Isabelle
  imports Main "HOL-Library.Char_ord" "HOL-Library.List_Lexorder"
begin

section \<open>Data model (models.py)\<close>

text \<open>
  Every ORM class of \<^verbatim>\<open>models.py\<close> is a record with one field per column, in the
  order of the class body.  A nullable column is an \<open>option\<close>; a Python \<open>int\<close> is an
  \<open>int\<close>; a \<open>str\<close> is a \<open>string\<close>.  Field names carry a prefix naming the table, since
  several tables share column names (\<open>id\<close>, \<open>engagement_id\<close>, \<open>created_at\<close>).
\<close>

type_synonym datetime = nat

record date =
  d_year :: nat
  d_month :: nat
  d_day :: nat

record user =
  usr_id :: int
  usr_username :: string
  usr_full_name :: "string option"
  usr_email :: "string option"
  usr_role :: string
  usr_password_hash :: string
  usr_api_key :: "string option"
  usr_created_at :: datetime

record program_year =
  py_id :: int
  py_year :: int
  py_theme :: "string option"
  py_objectives :: "string option"
  py_created_at :: datetime

record intake_request =
  ir_id :: int
  ir_title :: string
  ir_requester_name :: "string option"
  ir_requester_email :: "string option"
  ir_business_unit :: "string option"
  ir_system_name :: "string option"
  ir_description :: "string option"
  ir_risk_level :: "string option"
  ir_desired_window :: "string option"
  ir_engagement_type :: "string option"
  ir_status :: string
  ir_linked_engagement_id :: "int option"
  ir_created_by_id :: "int option"
  ir_created_at :: datetime

record engagement =
  eng_id :: int
  eng_name :: string
  eng_program_year_id :: "int option"
  eng_engagement_type :: string
  eng_business_unit :: "string option"
  eng_owner_id :: "int option"
  eng_status :: string
  eng_start_date :: "date option"
  eng_end_date :: "date option"
  eng_scope_summary :: "string option"
  eng_objectives :: "string option"
  eng_methodology :: "string option"
  eng_exec_summary :: "string option"
  eng_recommendations_overall :: "string option"
  eng_created_at :: datetime
  eng_updated_at :: "datetime option"

record asset =
  ast_id :: int
  ast_name :: string
  ast_asset_type :: string
  ast_identifier :: "string option"
  ast_environment :: "string option"
  ast_business_unit :: "string option"
  ast_criticality :: "string option"
  ast_notes :: "string option"
  ast_created_at :: datetime

record engagement_asset =
  ea_id :: int
  ea_engagement_id :: int
  ea_asset_id :: int
  ea_role :: "string option"
  ea_notes :: "string option"

record finding_template =
  ft_id :: int
  ft_title :: string
  ft_category :: "string option"
  ft_severity_default :: "string option"
  ft_description :: "string option"
  ft_impact :: "string option"
  ft_recommendation :: "string option"
  ft_cwe_id :: "string option"
  ft_attack_techniques :: "string option"
  ft_references :: "string option"
  ft_created_by_id :: "int option"
  ft_created_at :: datetime

record finding =
  fnd_id :: int
  fnd_engagement_id :: int
  fnd_template_id :: "int option"
  fnd_title :: string
  fnd_severity :: string
  fnd_status :: string
  fnd_description :: "string option"
  fnd_impact :: "string option"
  fnd_poc :: "string option"
  fnd_recommendation :: "string option"
  fnd_attack_techniques :: "string option"
  fnd_remediation_status :: string
  fnd_remediation_owner :: "string option"
  fnd_due_date :: "date option"
  fnd_detection_status :: "string option"
  fnd_detection_notes :: "string option"
  fnd_risk_accepted :: bool
  fnd_risk_accepted_notes :: "string option"
  fnd_created_by_id :: "int option"
  fnd_created_at :: datetime
  fnd_updated_at :: "datetime option"

record finding_asset =
  fa_id :: int
  fa_finding_id :: int
  fa_asset_id :: int

record timeline_event =
  te_id :: int
  te_engagement_id :: int
  te_user_id :: "int option"
  te_event_type :: string
  te_summary :: string
  te_details :: "string option"
  te_created_at :: datetime

record comment =
  cm_id :: int
  cm_engagement_id :: "int option"
  cm_finding_id :: "int option"
  cm_user_id :: int
  cm_text :: string
  cm_created_at :: datetime

text \<open>
  The database is the list of rows of each table, in storage order.  A request handler
  takes the database and returns the committed database with its result.
\<close>

record db =
  users :: "user list"
  program_years :: "program_year list"
  intake_requests :: "intake_request list"
  engagements :: "engagement list"
  assets :: "asset list"
  engagement_assets :: "engagement_asset list"
  finding_templates :: "finding_template list"
  findings :: "finding list"
  finding_assets :: "finding_asset list"
  timeline_events :: "timeline_event list"
  comments :: "comment list"

text \<open>
  What a handler raises: an \<^verbatim>\<open>HTTPException\<close> with its status code and detail, or an
  exception nothing catches (the framework answers 500): pydantic's validation error,
  an attribute read on \<^verbatim>\<open>None\<close>, or a constraint violation at commit.
\<close>

datatype error =
  HTTPException int string
  | ValidationError
  | AttributeError
  | IntegrityError

subsection \<open>Queries and Python idioms\<close>

text \<open>\<^verbatim>\<open>query.first()\<close>: the first row, or \<^verbatim>\<open>None\<close>.\<close>

definition first :: "'a list \<Rightarrow> 'a option" where
  "first xs = (case xs of [] \<Rightarrow> None | x # _ \<Rightarrow> Some x)"

text \<open>Truthiness of an optional string: \<^verbatim>\<open>None\<close> and the empty string are false.\<close>

definition truthy :: "string option \<Rightarrow> bool" where
  "truthy s = (case s of None \<Rightarrow> False | Some v \<Rightarrow> v \<noteq> [])"

text \<open>\<^verbatim>\<open>s or default\<close> on an optional string.\<close>

definition or_else :: "string option \<Rightarrow> string \<Rightarrow> string" where
  "or_else s dflt = (case s of None \<Rightarrow> dflt | Some v \<Rightarrow> if v = [] then dflt else v)"

text \<open>The integer primary key of a new row: one more than the largest in the table.\<close>

definition next_id :: "int list \<Rightarrow> int" where
  "next_id ids = (case ids of [] \<Rightarrow> 1 | x # xs \<Rightarrow> fold max xs x + 1)"

text \<open>\<^verbatim>\<open>str(n)\<close> for a Python integer.\<close>

fun str_nat :: "nat \<Rightarrow> string" where
  "str_nat n =
     (if n < 10 then [''0123456789'' ! n]
      else str_nat (n div 10) @ [''0123456789'' ! (n mod 10)])"

declare str_nat.simps [simp del]

definition str_int :: "int \<Rightarrow> string" where
  "str_int i = (if i < 0 then ''-'' @ str_nat (nat (- i)) else str_nat (nat i))"

text \<open>\<^verbatim>\<open>date.isoformat()\<close>: \<^verbatim>\<open>YYYY-MM-DD\<close>, zero padded.\<close>

definition zfill :: "nat \<Rightarrow> string \<Rightarrow> string" where
  "zfill w s = replicate (w - length s) (CHR ''0'') @ s"

definition isoformat :: "date \<Rightarrow> string" where
  "isoformat dt =
     zfill 4 (str_nat (d_year dt)) @ ''-'' @ zfill 2 (str_nat (d_month dt)) @ ''-''
       @ zfill 2 (str_nat (d_day dt))"

text \<open>\<^verbatim>\<open>sep.join(parts)\<close>.\<close>

fun join :: "string \<Rightarrow> string list \<Rightarrow> string" where
  "join sep [] = []"
| "join sep [x] = x"
| "join sep (x # y # ys) = x @ sep @ join sep (y # ys)"

text \<open>
  \<^verbatim>\<open>collections.Counter(keys)\<close>: a dict from each key to the number of times it occurs, in
  order of first occurrence; \<^verbatim>\<open>Counter.get(k, 0)\<close>.
\<close>

fun counter_add :: "'a \<Rightarrow> ('a \<times> int) list \<Rightarrow> ('a \<times> int) list" where
  "counter_add k [] = [(k, 1)]"
| "counter_add k ((k', c) # kcs) =
     (if k = k' then (k', c + 1) # kcs else (k', c) # counter_add k kcs)"

definition Counter :: "'a list \<Rightarrow> ('a \<times> int) list" where
  "Counter ks = fold counter_add ks []"

definition counter_get :: "('a \<times> int) list \<Rightarrow> 'a \<Rightarrow> int \<Rightarrow> int" where
  "counter_get c k dflt = (case map_of c k of None \<Rightarrow> dflt | Some v \<Rightarrow> v)"

subsection \<open>Relationships (models.py)\<close>

text \<open>
  A relationship attribute loads the rows whose foreign key is the owner's primary key
  (a collection), or the row the owner's foreign key names (a scalar, \<^verbatim>\<open>None\<close> when no
  such row exists).
\<close>

definition engagement_program_year :: "db \<Rightarrow> engagement \<Rightarrow> program_year option" where
  "engagement_program_year d e =
     (case eng_program_year_id e of
        None \<Rightarrow> None
      | Some pid \<Rightarrow> find (\<lambda>p. py_id p = pid) (program_years d))"

definition engagement_assets_of :: "db \<Rightarrow> engagement \<Rightarrow> engagement_asset list" where
  "engagement_assets_of d e =
     filter (\<lambda>ea. ea_engagement_id ea = eng_id e) (engagement_assets d)"

definition engagement_findings :: "db \<Rightarrow> engagement \<Rightarrow> finding list" where
  "engagement_findings d e = filter (\<lambda>f. fnd_engagement_id f = eng_id e) (findings d)"

definition engagement_timeline_events :: "db \<Rightarrow> engagement \<Rightarrow> timeline_event list" where
  "engagement_timeline_events d e =
     filter (\<lambda>t. te_engagement_id t = eng_id e) (timeline_events d)"

definition engagement_comments :: "db \<Rightarrow> engagement \<Rightarrow> comment list" where
  "engagement_comments d e =
     filter (\<lambda>c. cm_engagement_id c = Some (eng_id e)) (comments d)"

definition engagement_intake_request :: "db \<Rightarrow> engagement \<Rightarrow> intake_request list" where
  "engagement_intake_request d e =
     filter (\<lambda>r. ir_linked_engagement_id r = Some (eng_id e)) (intake_requests d)"

definition finding_assets_of :: "db \<Rightarrow> finding \<Rightarrow> finding_asset list" where
  "finding_assets_of d f = filter (\<lambda>l. fa_finding_id l = fnd_id f) (finding_assets d)"

definition finding_comments :: "db \<Rightarrow> finding \<Rightarrow> comment list" where
  "finding_comments d f = filter (\<lambda>c. cm_finding_id c = Some (fnd_id f)) (comments d)"

definition engagement_asset_asset :: "db \<Rightarrow> engagement_asset \<Rightarrow> asset option" where
  "engagement_asset_asset d ea = find (\<lambda>a. ast_id a = ea_asset_id ea) (assets d)"

definition finding_asset_asset :: "db \<Rightarrow> finding_asset \<Rightarrow> asset option" where
  "finding_asset_asset d l = find (\<lambda>a. ast_id a = fa_asset_id l) (assets d)"

section \<open>Identity resolution (routers/users.py)\<close>

definition get_current_user :: "db \<Rightarrow> string option \<Rightarrow> error + user" where
  "get_current_user d x_api_key =
     (if truthy x_api_key then
        (case find (\<lambda>u. usr_api_key u = x_api_key) (users d) of
           None \<Rightarrow> Inl (HTTPException 401 ''Invalid API key'')
         | Some user \<Rightarrow> Inr user)
      else
        (case first (users d) of
           None \<Rightarrow> Inl (HTTPException 500 ''No users in database'')
         | Some user \<Rightarrow> Inr user))"

text \<open>
  \<^verbatim>\<open>regenerate_api_key\<close>.  The value \<^verbatim>\<open>secrets.token_urlsafe(32)\<close> draws is the parameter
  \<open>token\<close>.  The commit is an \<^verbatim>\<open>UPDATE users SET api_key = ? WHERE id = ?\<close>; the column is
  declared \<^verbatim>\<open>unique=True\<close>, so the commit raises when another row holds the value.
\<close>

record api_key_response =
  akr_user_id :: int
  akr_username :: string
  akr_api_key :: string
  akr_message :: string

definition regenerate_api_key ::
  "string \<Rightarrow> db \<Rightarrow> string option \<Rightarrow> int \<Rightarrow> error + (db \<times> api_key_response)" where
  "regenerate_api_key token d x_api_key user_id =
     (case get_current_user d x_api_key of
        Inl err \<Rightarrow> Inl err
      | Inr current_user \<Rightarrow>
          if usr_role current_user \<noteq> ''admin'' then
            Inl (HTTPException 403 ''Only administrators can regenerate API keys'')
          else
            (case find (\<lambda>u. usr_id u = user_id) (users d) of
               None \<Rightarrow> Inl (HTTPException 404 ''User not found'')
             | Some user \<Rightarrow>
                 let new_api_key = token in
                 if list_ex (\<lambda>u. usr_id u \<noteq> user_id \<and> usr_api_key u = Some new_api_key) (users d)
                 then Inl IntegrityError
                 else
                   Inr (d\<lparr>users :=
                            map (\<lambda>u. if usr_id u = user_id
                                      then u\<lparr>usr_api_key := Some new_api_key\<rparr> else u)
                              (users d)\<rparr>,
                        \<lparr>akr_user_id = usr_id user,
                         akr_username = usr_username user,
                         akr_api_key = new_api_key,
                         akr_message =
                           ''API key regenerated successfully. Save this key - it won't be shown again!''\<rparr>)))"

section \<open>Engagements (routers/engagements.py)\<close>

subsection \<open>Request and response schemas (schemas/)\<close>


record asset_summary =
  as_id :: int
  as_name :: string
  as_asset_type :: string
  as_identifier :: "string option"
  as_environment :: "string option"
  as_criticality :: "string option"

record finding_report_item =
  fri_id :: int
  fri_title :: string
  fri_severity :: string
  fri_status :: string
  fri_description :: "string option"
  fri_impact :: "string option"
  fri_poc :: "string option"
  fri_recommendation :: "string option"
  fri_attack_techniques :: "string option"
  fri_remediation_status :: string
  fri_remediation_owner :: "string option"
  fri_due_date :: "date option"
  fri_detection_status :: "string option"
  fri_detection_notes :: "string option"
  fri_risk_accepted :: bool
  fri_risk_accepted_notes :: "string option"
  fri_assets :: "asset_summary list"

record engagement_report_scope =
  ers_scope_summary :: "string option"
  ers_objectives :: "string option"
  ers_assets :: "asset_summary list"

record engagement_report_metadata =
  erm_id :: int
  erm_name :: string
  erm_engagement_type :: string
  erm_program_year :: "int option"
  erm_business_unit :: "string option"
  erm_status :: string
  erm_start_date :: "date option"
  erm_end_date :: "date option"
  erm_owner_id :: "int option"

text \<open>\<^verbatim>\<open>findings_summary: Dict[str, int]\<close> keeps the Counter's keys in insertion order.\<close>

record engagement_report =
  rep_metadata :: engagement_report_metadata
  rep_executive_summary :: "string option"
  rep_scope :: engagement_report_scope
  rep_methodology :: "string option"
  rep_findings_summary :: "(string \<times> int) list"
  rep_findings :: "finding_report_item list"
  rep_recommendations_overall :: "string option"

text \<open>The body and headers of a \<^verbatim>\<open>fastapi.responses.Response\<close>.\<close>

record response =
  resp_content :: string
  resp_media_type :: string
  resp_headers :: "(string \<times> string) list"

subsection \<open>create_engagement\<close>



subsection \<open>get_engagement_report\<close>

text \<open>
  \<^verbatim>\<open>AssetSummary.from_orm(x)\<close>: the six fields read from the asset; validation fails when the
  relationship gave \<^verbatim>\<open>None\<close>.
\<close>

definition asset_summary_from_orm :: "asset option \<Rightarrow> error + asset_summary" where
  "asset_summary_from_orm x =
     (case x of
        None \<Rightarrow> Inl ValidationError
      | Some a \<Rightarrow>
          Inr \<lparr>as_id = ast_id a, as_name = ast_name a, as_asset_type = ast_asset_type a,
               as_identifier = ast_identifier a, as_environment = ast_environment a,
               as_criticality = ast_criticality a\<rparr>)"

text \<open>A list comprehension whose element expression may raise: the first error wins.\<close>

fun map_err :: "('a \<Rightarrow> error + 'b) \<Rightarrow> 'a list \<Rightarrow> error + 'b list" where
  "map_err g [] = Inr []"
| "map_err g (x # xs) =
     (case g x of
        Inl err \<Rightarrow> Inl err
      | Inr y \<Rightarrow> (case map_err g xs of Inl err \<Rightarrow> Inl err | Inr ys \<Rightarrow> Inr (y # ys)))"

text \<open>Lines 243 to 264: the item built for one finding in the loop over the findings.\<close>

definition finding_report_item_of :: "db \<Rightarrow> finding \<Rightarrow> error + finding_report_item" where
  "finding_report_item_of d f =
     (case map_err (\<lambda>link. asset_summary_from_orm (finding_asset_asset d link))
             (finding_assets_of d f) of
        Inl err \<Rightarrow> Inl err
      | Inr f_assets \<Rightarrow>
          Inr \<lparr>fri_id = fnd_id f,
               fri_title = fnd_title f,
               fri_severity = fnd_severity f,
               fri_status = fnd_status f,
               fri_description = fnd_description f,
               fri_impact = fnd_impact f,
               fri_poc = fnd_poc f,
               fri_recommendation = fnd_recommendation f,
               fri_attack_techniques = fnd_attack_techniques f,
               fri_remediation_status = fnd_remediation_status f,
               fri_remediation_owner = fnd_remediation_owner f,
               fri_due_date = fnd_due_date f,
               fri_detection_status = fnd_detection_status f,
               fri_detection_notes = fnd_detection_notes f,
               fri_risk_accepted = fnd_risk_accepted f,
               fri_risk_accepted_notes = fnd_risk_accepted_notes f,
               fri_assets = f_assets\<rparr>)"

text \<open>Lines 211 to 276: the report of a loaded engagement.\<close>

definition build_report :: "db \<Rightarrow> engagement \<Rightarrow> error + engagement_report" where
  "build_report d engagement =
     (let metadata =
            \<lparr>erm_id = eng_id engagement,
             erm_name = eng_name engagement,
             erm_engagement_type = eng_engagement_type engagement,
             erm_program_year =
               (case engagement_program_year d engagement of
                  Some p \<Rightarrow> Some (py_year p) | None \<Rightarrow> None),
             erm_business_unit = eng_business_unit engagement,
             erm_status = eng_status engagement,
             erm_start_date = eng_start_date engagement,
             erm_end_date = eng_end_date engagement,
             erm_owner_id = eng_owner_id engagement\<rparr>
      in case map_err (\<lambda>ea. asset_summary_from_orm (engagement_asset_asset d ea))
                (engagement_assets_of d engagement) of
           Inl err \<Rightarrow> Inl err
         | Inr scope_assets \<Rightarrow>
             let scope =
                   \<lparr>ers_scope_summary = eng_scope_summary engagement,
                    ers_objectives = eng_objectives engagement,
                    ers_assets = scope_assets\<rparr>;
                 severity_counts = Counter (map fnd_severity (engagement_findings d engagement));
                 findings_summary = severity_counts
             in case map_err (finding_report_item_of d) (engagement_findings d engagement) of
                  Inl err \<Rightarrow> Inl err
                | Inr findings_items \<Rightarrow>
                    Inr \<lparr>rep_metadata = metadata,
                         rep_executive_summary = eng_exec_summary engagement,
                         rep_scope = scope,
                         rep_methodology = eng_methodology engagement,
                         rep_findings_summary = findings_summary,
                         rep_findings = findings_items,
                         rep_recommendations_overall = eng_recommendations_overall engagement\<rparr>)"

definition get_engagement_report :: "db \<Rightarrow> string option \<Rightarrow> int \<Rightarrow> error + engagement_report" where
  "get_engagement_report d x_api_key engagement_id =
     (case get_current_user d x_api_key of
        Inl err \<Rightarrow> Inl err
      | Inr current_user \<Rightarrow>
          (case find (\<lambda>e. eng_id e = engagement_id) (engagements d) of
             None \<Rightarrow> Inl (HTTPException 404 ''Engagement not found'')
           | Some engagement \<Rightarrow> build_report d engagement))"

subsection \<open>export_engagement_csv\<close>

text \<open>
  \<^verbatim>\<open>csv.writer\<close> with the default dialect: a field is quoted when it holds the delimiter,
  the quote character, a carriage return or a line feed, and a quote inside it is doubled;
  a row that is one empty field is written as two quotes; every row ends with CR LF.
\<close>

definition csv_special :: "char \<Rightarrow> bool" where
  "csv_special c = (c = CHR '','' \<or> c = CHR 0x22 \<or> c = CHR 0x0D \<or> c = CHR 0x0A)"

definition csv_field :: "string \<Rightarrow> string" where
  "csv_field s =
     (if list_ex csv_special s
      then [CHR 0x22] @ concat (map (\<lambda>c. if c = CHR 0x22 then [c, c] else [c]) s) @ [CHR 0x22]
      else s)"

definition csv_writerow :: "string list \<Rightarrow> string" where
  "csv_writerow row =
     (if row = [''''] then [CHR 0x22, CHR 0x22] else join '','' (map csv_field row))
       @ [CHR 0x0D, CHR 0x0A]"

definition csv_header :: "string list" where
  "csv_header =
     [''Finding ID'', ''Title'', ''Severity'', ''Status'', ''Description'',
      ''Impact'', ''Recommendation'', ''Remediation Status'', ''Remediation Owner'',
      ''Due Date'', ''Detection Status'', ''Risk Accepted'', ''Affected Assets'',
      ''ATT&CK Techniques'']"

text \<open>\<^verbatim>\<open>f"{link.asset.name} ({link.asset.identifier or 'N/A'})"\<close>; reading \<^verbatim>\<open>.name\<close> on \<^verbatim>\<open>None\<close> raises.\<close>

definition asset_label :: "asset option \<Rightarrow> error + string" where
  "asset_label x =
     (case x of
        None \<Rightarrow> Inl AttributeError
      | Some a \<Rightarrow> Inr (ast_name a @ '' ('' @ or_else (ast_identifier a) ''N/A'' @ '')''))"

definition csv_assets_str :: "db \<Rightarrow> finding \<Rightarrow> error + string" where
  "csv_assets_str d finding =
     (if finding_assets_of d finding \<noteq> [] then
        (case map_err (\<lambda>link. asset_label (finding_asset_asset d link))
                (finding_assets_of d finding) of
           Inl err \<Rightarrow> Inl err
         | Inr parts \<Rightarrow> Inr (join '', '' parts))
      else Inr ''N/A'')"

text \<open>The list handed to \<^verbatim>\<open>writer.writerow\<close> for one finding, each cell as \<^verbatim>\<open>str\<close> writes it.\<close>

definition csv_finding_row :: "db \<Rightarrow> finding \<Rightarrow> error + string list" where
  "csv_finding_row d finding =
     (case csv_assets_str d finding of
        Inl err \<Rightarrow> Inl err
      | Inr assets_str \<Rightarrow>
          Inr [str_int (fnd_id finding),
               fnd_title finding,
               fnd_severity finding,
               fnd_status finding,
               or_else (fnd_description finding) '''',
               or_else (fnd_impact finding) '''',
               or_else (fnd_recommendation finding) '''',
               fnd_remediation_status finding,
               or_else (fnd_remediation_owner finding) '''',
               (case fnd_due_date finding of Some dt \<Rightarrow> isoformat dt | None \<Rightarrow> ''''),
               or_else (fnd_detection_status finding) '''',
               (if fnd_risk_accepted finding then ''Yes'' else ''No''),
               assets_str,
               or_else (fnd_attack_techniques finding) ''''])"

definition csv_rows :: "db \<Rightarrow> engagement \<Rightarrow> error + string list list" where
  "csv_rows d engagement =
     (case map_err (csv_finding_row d) (engagement_findings d engagement) of
        Inl err \<Rightarrow> Inl err
      | Inr rows \<Rightarrow> Inr (csv_header # rows))"

definition export_engagement_csv :: "db \<Rightarrow> string option \<Rightarrow> int \<Rightarrow> error + response" where
  "export_engagement_csv d x_api_key engagement_id =
     (case get_current_user d x_api_key of
        Inl err \<Rightarrow> Inl err
      | Inr current_user \<Rightarrow>
          (case find (\<lambda>e. eng_id e = engagement_id) (engagements d) of
             None \<Rightarrow> Inl (HTTPException 404 ''Engagement not found'')
           | Some engagement \<Rightarrow>
               (case csv_rows d engagement of
                  Inl err \<Rightarrow> Inl err
                | Inr rows \<Rightarrow>
                    Inr \<lparr>resp_content = concat (map csv_writerow rows),
                         resp_media_type = ''text/csv'',
                         resp_headers =
                           [(''Content-Disposition'',
                             ''attachment; filename=engagement_'' @ str_int engagement_id
                               @ ''_findings.csv'')]\<rparr>)))"

subsection \<open>export_engagement_markdown\<close>

text \<open>\<^verbatim>\<open>if s: lines\<close> on an optional string: the lines when it is truthy, none otherwise.\<close>

definition when_truthy :: "string option \<Rightarrow> (string \<Rightarrow> string list) \<Rightarrow> string list" where
  "when_truthy s g = (case s of None \<Rightarrow> [] | Some v \<Rightarrow> if v = [] then [] else g v)"

definition when_date :: "date option \<Rightarrow> (date \<Rightarrow> string list) \<Rightarrow> string list" where
  "when_date x g = (case x of None \<Rightarrow> [] | Some dt \<Rightarrow> g dt)"

text \<open>Lines 376 to 388.\<close>

definition md_metadata :: "db \<Rightarrow> engagement \<Rightarrow> string list" where
  "md_metadata d engagement =
     [''# '' @ eng_name engagement,
      '''',
      ''## Engagement Metadata'',
      '''',
      ''- **Type**: '' @ eng_engagement_type engagement,
      ''- **Status**: '' @ eng_status engagement,
      ''- **Business Unit**: '' @ or_else (eng_business_unit engagement) ''N/A'',
      ''- **Program Year**: ''
        @ (case engagement_program_year d engagement of
             Some p \<Rightarrow> str_int (py_year p) | None \<Rightarrow> ''N/A'')]
     @ when_date (eng_start_date engagement) (\<lambda>dt. [''- **Start Date**: '' @ isoformat dt])
     @ when_date (eng_end_date engagement) (\<lambda>dt. [''- **End Date**: '' @ isoformat dt])
     @ ['''']"

text \<open>Lines 390 to 400.\<close>

definition md_exec_summary :: "engagement \<Rightarrow> string list" where
  "md_exec_summary engagement =
     when_truthy (eng_exec_summary engagement) (\<lambda>v. [''## Executive Summary'', '''', v, ''''])"

definition md_scope :: "engagement \<Rightarrow> string list" where
  "md_scope engagement =
     when_truthy (eng_scope_summary engagement) (\<lambda>v. [''## Scope'', '''', v, ''''])"

text \<open>Lines 402 to 408.\<close>

definition md_asset_line :: "asset option \<Rightarrow> error + string" where
  "md_asset_line x =
     (case x of
        None \<Rightarrow> Inl AttributeError
      | Some asset \<Rightarrow>
          Inr (''- **'' @ ast_name asset @ ''** ('' @ ast_asset_type asset @ ''): ''
                 @ or_else (ast_identifier asset) ''N/A''))"

definition md_assets :: "db \<Rightarrow> engagement \<Rightarrow> error + string list" where
  "md_assets d engagement =
     (if engagement_assets_of d engagement \<noteq> [] then
        (case map_err (\<lambda>ea. md_asset_line (engagement_asset_asset d ea))
                (engagement_assets_of d engagement) of
           Inl err \<Rightarrow> Inl err
         | Inr ls \<Rightarrow> Inr ([''### In-Scope Assets'', ''''] @ ls @ ['''']))
      else Inr [])"

text \<open>Lines 410 to 420.\<close>

definition md_objectives :: "engagement \<Rightarrow> string list" where
  "md_objectives engagement =
     when_truthy (eng_objectives engagement) (\<lambda>v. [''## Objectives'', '''', v, ''''])"

definition md_methodology :: "engagement \<Rightarrow> string list" where
  "md_methodology engagement =
     when_truthy (eng_methodology engagement) (\<lambda>v. [''## Methodology'', '''', v, ''''])"

text \<open>Lines 422 to 434: the findings summary.\<close>

definition md_severity_row :: "(string \<times> int) list \<Rightarrow> string \<Rightarrow> string list" where
  "md_severity_row severity_counts severity =
     (let count = counter_get severity_counts severity 0
      in if count > 0 then [''| '' @ severity @ '' | '' @ str_int count @ '' |''] else [])"

definition md_findings_summary :: "finding list \<Rightarrow> string list" where
  "md_findings_summary fs =
     [''## Findings Summary'', '''']
     @ (let severity_counts = Counter (map fnd_severity fs)
        in if severity_counts \<noteq> [] then
             [''| Severity | Count |'', ''|----------|-------|'']
             @ concat (map (md_severity_row severity_counts)
                         [''Critical'', ''High'', ''Medium'', ''Low'', ''Info''])
           else [''No findings recorded.''])
     @ ['''']"

text \<open>Lines 441 to 485: one finding, numbered \<open>i\<close>.\<close>

definition md_affected_line :: "asset option \<Rightarrow> error + string" where
  "md_affected_line x =
     (case x of
        None \<Rightarrow> Inl AttributeError
      | Some asset \<Rightarrow>
          Inr (''- '' @ ast_name asset @ '' ('' @ or_else (ast_identifier asset) ''N/A'' @ '')''))"

definition md_affected :: "db \<Rightarrow> finding \<Rightarrow> error + string list" where
  "md_affected d finding =
     (if finding_assets_of d finding \<noteq> [] then
        (case map_err (\<lambda>link. md_affected_line (finding_asset_asset d link))
                (finding_assets_of d finding) of
           Inl err \<Rightarrow> Inl err
         | Inr ls \<Rightarrow> Inr ([''**Affected Assets:**''] @ ls @ ['''']))
      else Inr [])"

definition md_finding :: "db \<Rightarrow> int \<Rightarrow> finding \<Rightarrow> error + string list" where
  "md_finding d i finding =
     (case md_affected d finding of
        Inl err \<Rightarrow> Inl err
      | Inr affected \<Rightarrow>
          Inr ([''### '' @ str_int i @ ''. '' @ fnd_title finding,
                '''',
                ''- **Severity**: '' @ fnd_severity finding,
                ''- **Status**: '' @ fnd_status finding,
                ''- **Remediation Status**: '' @ fnd_remediation_status finding]
               @ when_truthy (fnd_remediation_owner finding)
                   (\<lambda>v. [''- **Remediation Owner**: '' @ v])
               @ when_date (fnd_due_date finding) (\<lambda>dt. [''- **Due Date**: '' @ isoformat dt])
               @ ['''']
               @ affected
               @ when_truthy (fnd_description finding) (\<lambda>v. [''**Description:**'', '''', v, ''''])
               @ when_truthy (fnd_impact finding) (\<lambda>v. [''**Impact:**'', '''', v, ''''])
               @ when_truthy (fnd_poc finding) (\<lambda>v. [''**Proof of Concept:**'', '''', v, ''''])
               @ when_truthy (fnd_recommendation finding)
                   (\<lambda>v. [''**Recommendation:**'', '''', v, ''''])
               @ when_truthy (fnd_attack_techniques finding)
                   (\<lambda>v. [''**ATT&CK Techniques:** '' @ v, ''''])))"

text \<open>\<^verbatim>\<open>for i, finding in enumerate(engagement.findings, 1)\<close>, from index \<open>i\<close> on.\<close>

fun md_finding_loop :: "db \<Rightarrow> int \<Rightarrow> finding list \<Rightarrow> error + string list" where
  "md_finding_loop d i [] = Inr []"
| "md_finding_loop d i (finding # rest) =
     (case md_finding d i finding of
        Inl err \<Rightarrow> Inl err
      | Inr ls \<Rightarrow>
          (case md_finding_loop d (i + 1) rest of
             Inl err \<Rightarrow> Inl err
           | Inr others \<Rightarrow> Inr (ls @ others)))"

text \<open>Lines 436 to 485.\<close>

definition md_detailed_findings :: "db \<Rightarrow> finding list \<Rightarrow> error + string list" where
  "md_detailed_findings d fs =
     (if fs \<noteq> [] then
        (case md_finding_loop d 1 fs of
           Inl err \<Rightarrow> Inl err
         | Inr ls \<Rightarrow> Inr ([''## Detailed Findings'', ''''] @ ls))
      else Inr [])"

text \<open>Lines 487 to 491.\<close>

definition md_overall :: "engagement \<Rightarrow> string list" where
  "md_overall engagement =
     when_truthy (eng_recommendations_overall engagement)
       (\<lambda>v. [''## Overall Recommendations'', '''', v, ''''])"

text \<open>The list \<^verbatim>\<open>md_lines\<close> at line 493.\<close>

definition md_lines :: "db \<Rightarrow> engagement \<Rightarrow> error + string list" where
  "md_lines d engagement =
     (case md_assets d engagement of
        Inl err \<Rightarrow> Inl err
      | Inr asset_lines \<Rightarrow>
          (case md_detailed_findings d (engagement_findings d engagement) of
             Inl err \<Rightarrow> Inl err
           | Inr detail_lines \<Rightarrow>
               Inr (md_metadata d engagement
                    @ md_exec_summary engagement
                    @ md_scope engagement
                    @ asset_lines
                    @ md_objectives engagement
                    @ md_methodology engagement
                    @ md_findings_summary (engagement_findings d engagement)
                    @ detail_lines
                    @ md_overall engagement)))"

definition export_engagement_markdown :: "db \<Rightarrow> string option \<Rightarrow> int \<Rightarrow> error + response" where
  "export_engagement_markdown d x_api_key engagement_id =
     (case get_current_user d x_api_key of
        Inl err \<Rightarrow> Inl err
      | Inr current_user \<Rightarrow>
          (case find (\<lambda>e. eng_id e = engagement_id) (engagements d) of
             None \<Rightarrow> Inl (HTTPException 404 ''Engagement not found'')
           | Some engagement \<Rightarrow>
               (case md_lines d engagement of
                  Inl err \<Rightarrow> Inl err
                | Inr ls \<Rightarrow>
                    Inr \<lparr>resp_content = join [CHR 0x0A] ls,
                         resp_media_type = ''text/markdown'',
                         resp_headers =
                           [(''Content-Disposition'',
                             ''attachment; filename=engagement_'' @ str_int engagement_id
                               @ ''_report.md'')]\<rparr>)))"

section \<open>Findings (routers/findings.py)\<close>

record finding_create =
  fc_title :: string
  fc_severity :: string
  fc_description :: "string option"
  fc_impact :: "string option"
  fc_poc :: "string option"
  fc_recommendation :: "string option"
  fc_attack_techniques :: "string option"
  fc_template_id :: "int option"
  fc_remediation_status :: "string option"
  fc_remediation_owner :: "string option"
  fc_due_date :: "date option"

text \<open>
  \<^verbatim>\<open>create_finding\<close>.  Columns the constructor call leaves out take their defaults
  (\<^verbatim>\<open>status\<close>, \<^verbatim>\<open>risk_accepted\<close>, the two timestamps) or stay \<^verbatim>\<open>NULL\<close>.
\<close>

definition create_finding ::
  "datetime \<Rightarrow> db \<Rightarrow> string option \<Rightarrow> int \<Rightarrow> finding_create \<Rightarrow> error + (db \<times> finding)" where
  "create_finding now d x_api_key engagement_id finding_in =
     (case get_current_user d x_api_key of
        Inl err \<Rightarrow> Inl err
      | Inr current_user \<Rightarrow>
          (case find (\<lambda>e. eng_id e = engagement_id) (engagements d) of
             None \<Rightarrow> Inl (HTTPException 404 ''Engagement not found'')
           | Some engagement \<Rightarrow>
               let finding =
                     \<lparr>fnd_id = next_id (map fnd_id (findings d)),
                      fnd_engagement_id = engagement_id,
                      fnd_template_id = fc_template_id finding_in,
                      fnd_title = fc_title finding_in,
                      fnd_severity = fc_severity finding_in,
                      fnd_status = ''New'',
                      fnd_description = fc_description finding_in,
                      fnd_impact = fc_impact finding_in,
                      fnd_poc = fc_poc finding_in,
                      fnd_recommendation = fc_recommendation finding_in,
                      fnd_attack_techniques = fc_attack_techniques finding_in,
                      fnd_remediation_status =
                        or_else (fc_remediation_status finding_in) ''Not-Started'',
                      fnd_remediation_owner = fc_remediation_owner finding_in,
                      fnd_due_date = fc_due_date finding_in,
                      fnd_detection_status = None,
                      fnd_detection_notes = None,
                      fnd_risk_accepted = False,
                      fnd_risk_accepted_notes = None,
                      fnd_created_by_id = Some (usr_id current_user),
                      fnd_created_at = now,
                      fnd_updated_at = Some now\<rparr>
               in Inr (d\<lparr>findings := findings d @ [finding]\<rparr>, finding)))"

text \<open>
  \<^verbatim>\<open>list_findings_for_engagement\<close>: \<^verbatim>\<open>ORDER BY severity DESC\<close> compares the strings; rows
  with equal severity come in an order the engine chooses, here the reverse of storage.
\<close>

definition list_findings_for_engagement :: "db \<Rightarrow> string option \<Rightarrow> int \<Rightarrow> error + finding list" where
  "list_findings_for_engagement d x_api_key engagement_id =
     (case get_current_user d x_api_key of
        Inl err \<Rightarrow> Inl err
      | Inr current_user \<Rightarrow>
          (case find (\<lambda>e. eng_id e = engagement_id) (engagements d) of
             None \<Rightarrow> Inl (HTTPException 404 ''Engagement not found'')
           | Some engagement \<Rightarrow>
               Inr (rev (sort_key fnd_severity
                      (filter (\<lambda>f. fnd_engagement_id f = engagement_id) (findings d))))))"

section \<open>Timeline and comments (routers/timeline\_comments.py)\<close>

record timeline_event_create =
  tec_event_type :: string
  tec_summary :: string
  tec_details :: "string option"

definition add_timeline_event ::
  "datetime \<Rightarrow> db \<Rightarrow> string option \<Rightarrow> int \<Rightarrow> timeline_event_create
     \<Rightarrow> error + (db \<times> timeline_event)" where
  "add_timeline_event now d x_api_key engagement_id event_in =
     (case get_current_user d x_api_key of
        Inl err \<Rightarrow> Inl err
      | Inr current_user \<Rightarrow>
          (case find (\<lambda>e. eng_id e = engagement_id) (engagements d) of
             None \<Rightarrow> Inl (HTTPException 404 ''Engagement not found'')
           | Some engagement \<Rightarrow>
               let event =
                     \<lparr>te_id = next_id (map te_id (timeline_events d)),
                      te_engagement_id = engagement_id,
                      te_user_id = Some (usr_id current_user),
                      te_event_type = tec_event_type event_in,
                      te_summary = tec_summary event_in,
                      te_details = tec_details event_in,
                      te_created_at = now\<rparr>
               in Inr (d\<lparr>timeline_events := timeline_events d @ [event]\<rparr>, event)))"

text \<open>\<^verbatim>\<open>list_timeline_events\<close>: the query alone; the handler looks no engagement up.\<close>

definition list_timeline_events :: "db \<Rightarrow> string option \<Rightarrow> int \<Rightarrow> error + timeline_event list" where
  "list_timeline_events d x_api_key engagement_id =
     (case get_current_user d x_api_key of
        Inl err \<Rightarrow> Inl err
      | Inr current_user \<Rightarrow>
          Inr (sort_key te_created_at
                 (filter (\<lambda>t. te_engagement_id t = engagement_id) (timeline_events d))))"

definition add_engagement_comment ::
  "datetime \<Rightarrow> db \<Rightarrow> string option \<Rightarrow> int \<Rightarrow> string \<Rightarrow> error + (db \<times> comment)" where
  "add_engagement_comment now d x_api_key engagement_id comment_in_text =
     (case get_current_user d x_api_key of
        Inl err \<Rightarrow> Inl err
      | Inr current_user \<Rightarrow>
          (case find (\<lambda>e. eng_id e = engagement_id) (engagements d) of
             None \<Rightarrow> Inl (HTTPException 404 ''Engagement not found'')
           | Some engagement \<Rightarrow>
               let c =
                     \<lparr>cm_id = next_id (map cm_id (comments d)),
                      cm_engagement_id = Some engagement_id,
                      cm_finding_id = None,
                      cm_user_id = usr_id current_user,
                      cm_text = comment_in_text,
                      cm_created_at = now\<rparr>
               in Inr (d\<lparr>comments := comments d @ [c]\<rparr>, c)))"

section \<open>Finding templates (routers/finding\_templates.py)\<close>

definition get_finding_template :: "db \<Rightarrow> string option \<Rightarrow> int \<Rightarrow> error + finding_template" where
  "get_finding_template d x_api_key template_id =
     (case get_current_user d x_api_key of
        Inl err \<Rightarrow> Inl err
      | Inr current_user \<Rightarrow>
          (case find (\<lambda>t. ft_id t = template_id) (finding_templates d) of
             None \<Rightarrow> Inl (HTTPException 404 ''Finding template not found'')
           | Some template \<Rightarrow> Inr template))"

text \<open>
  \<^verbatim>\<open>delete_finding_template\<close>: \<^verbatim>\<open>FindingTemplate\<close> declares no relationship to findings, so
  the delete is of the template's row alone.
\<close>

definition delete_finding_template :: "db \<Rightarrow> string option \<Rightarrow> int \<Rightarrow> error + db" where
  "delete_finding_template d x_api_key template_id =
     (case get_current_user d x_api_key of
        Inl err \<Rightarrow> Inl err
      | Inr current_user \<Rightarrow>
          (case find (\<lambda>t. ft_id t = template_id) (finding_templates d) of
             None \<Rightarrow> Inl (HTTPException 404 ''Finding template not found'')
           | Some template \<Rightarrow>
               Inr (d\<lparr>finding_templates :=
                        filter (\<lambda>t. ft_id t \<noteq> template_id) (finding_templates d)\<rparr>)))"

section \<open>Deleting an engagement\<close>

text \<open>
  Modelled from the spec: the delete-by-identifier operation of the Entity Store on an
  engagement (spec section 4.3), which no handler under \<^verbatim>\<open>routers/\<close> performs.  Its
  cascade edges are the ones \<^verbatim>\<open>models.py\<close> declares with
  \<^verbatim>\<open>cascade="all, delete-orphan"\<close>: \<^verbatim>\<open>Engagement.assets\<close>, \<^verbatim>\<open>Engagement.findings\<close>,
  \<^verbatim>\<open>Engagement.timeline_events\<close>, \<^verbatim>\<open>Engagement.comments\<close>, and from each finding
  \<^verbatim>\<open>Finding.assets\<close> and \<^verbatim>\<open>Finding.comments\<close>.  \<^verbatim>\<open>Engagement.intake_request\<close> declares no
  delete cascade, so its rows stay, with the foreign key set to \<^verbatim>\<open>NULL\<close>.  A cascade
  deletes the rows the relationship loads.  The whole delete is one transition of the
  database: one transaction.
\<close>

definition delete_engagement :: "db \<Rightarrow> int \<Rightarrow> error + db" where
  "delete_engagement d engagement_id =
     (case find (\<lambda>e. eng_id e = engagement_id) (engagements d) of
        None \<Rightarrow> Inl (HTTPException 404 ''Engagement not found'')
      | Some engagement \<Rightarrow>
          let owned_findings = engagement_findings d engagement;
              owned_links = concat (map (finding_assets_of d) owned_findings);
              owned_comments =
                engagement_comments d engagement
                @ concat (map (finding_comments d) owned_findings)
          in Inr (d\<lparr>engagements :=
                     filter (\<lambda>e. eng_id e \<noteq> eng_id engagement) (engagements d),
                   engagement_assets :=
                     filter (\<lambda>ea. ea \<notin> set (engagement_assets_of d engagement))
                       (engagement_assets d),
                   findings := filter (\<lambda>f. f \<notin> set owned_findings) (findings d),
                   finding_assets := filter (\<lambda>l. l \<notin> set owned_links) (finding_assets d),
                   timeline_events :=
                     filter (\<lambda>t. t \<notin> set (engagement_timeline_events d engagement))
                       (timeline_events d),
                   comments := filter (\<lambda>c. c \<notin> set owned_comments) (comments d),
                   intake_requests :=
                     map (\<lambda>r. if r \<in> set (engagement_intake_request d engagement)
                               then r\<lparr>ir_linked_engagement_id := None\<rparr> else r)
                       (intake_requests d)\<rparr>))"

section \<open>An example database\<close>

text \<open>
  The scenario of the spec: the engagement "Q2 2025 PCI Network Test" (type PCI, year 2025)
  with two findings, High and Critical, each linked to one of two assets.  Beside it, an
  engagement with no finding, and one whose only finding has a severity outside the five
  labels, no linked asset and no optional text.
\<close>

definition example_user :: user where
  "example_user =
     \<lparr>usr_id = 1, usr_username = ''malcolm'', usr_full_name = Some ''Malcolm Green'',
      usr_email = Some ''malcolm@example.com'', usr_role = ''admin'',
      usr_password_hash = ''fakehash'', usr_api_key = Some ''old-key'', usr_created_at = 0\<rparr>"

definition example_engagement :: "int \<Rightarrow> string \<Rightarrow> engagement" where
  "example_engagement i name =
     \<lparr>eng_id = i, eng_name = name, eng_program_year_id = Some 1,
      eng_engagement_type = ''PCI'', eng_business_unit = None, eng_owner_id = Some 1,
      eng_status = ''Planned'', eng_start_date = Some \<lparr>d_year = 2025, d_month = 4, d_day = 1\<rparr>,
      eng_end_date = None, eng_scope_summary = Some ''Cardholder data environment'',
      eng_objectives = None, eng_methodology = None, eng_exec_summary = None,
      eng_recommendations_overall = None, eng_created_at = 0, eng_updated_at = Some 0\<rparr>"

definition example_asset :: "int \<Rightarrow> string \<Rightarrow> string option \<Rightarrow> asset" where
  "example_asset i name ident =
     \<lparr>ast_id = i, ast_name = name, ast_asset_type = ''Host'', ast_identifier = ident,
      ast_environment = Some ''Prod'', ast_business_unit = None, ast_criticality = None,
      ast_notes = None, ast_created_at = 0\<rparr>"

definition example_finding :: "int \<Rightarrow> int \<Rightarrow> string \<Rightarrow> string \<Rightarrow> finding" where
  "example_finding i e title severity =
     \<lparr>fnd_id = i, fnd_engagement_id = e, fnd_template_id = None, fnd_title = title,
      fnd_severity = severity, fnd_status = ''New'', fnd_description = None,
      fnd_impact = None, fnd_poc = None, fnd_recommendation = None,
      fnd_attack_techniques = None, fnd_remediation_status = ''Not-Started'',
      fnd_remediation_owner = None, fnd_due_date = None, fnd_detection_status = None,
      fnd_detection_notes = None, fnd_risk_accepted = False, fnd_risk_accepted_notes = None,
      fnd_created_by_id = Some 1, fnd_created_at = 0, fnd_updated_at = Some 0\<rparr>"

definition example_template :: finding_template where
  "example_template =
     \<lparr>ft_id = 1, ft_title = ''SQL Injection'', ft_category = Some ''Web'',
      ft_severity_default = Some ''High'',
      ft_description = Some ''Canonical description'',
      ft_impact = Some ''Canonical impact'',
      ft_recommendation = Some ''Canonical recommendation'',
      ft_cwe_id = Some ''CWE-89'', ft_attack_techniques = Some ''T1190'',
      ft_references = None, ft_created_by_id = Some 1, ft_created_at = 0\<rparr>"

definition example_db :: db where
  "example_db =
     \<lparr>users = [example_user],
      program_years =
        [\<lparr>py_id = 1, py_year = 2025, py_theme = None, py_objectives = None,
          py_created_at = 0\<rparr>],
      intake_requests =
        [\<lparr>ir_id = 1, ir_title = ''PCI test request'', ir_requester_name = None,
          ir_requester_email = None, ir_business_unit = None, ir_system_name = None,
          ir_description = None, ir_risk_level = None, ir_desired_window = None,
          ir_engagement_type = Some ''PCI'', ir_status = ''Converted'',
          ir_linked_engagement_id = Some 1, ir_created_by_id = Some 1, ir_created_at = 0\<rparr>],
      engagements =
        [example_engagement 1 ''Q2 2025 PCI Network Test'',
         example_engagement 2 ''Not started'',
         example_engagement 3 ''Odd severity''],
      assets = [example_asset 1 ''NICKEL'' (Some ''10.0.76.27''), example_asset 2 ''COPPER'' None],
      engagement_assets =
        [\<lparr>ea_id = 1, ea_engagement_id = 1, ea_asset_id = 1, ea_role = Some ''Primary'',
          ea_notes = None\<rparr>,
         \<lparr>ea_id = 2, ea_engagement_id = 1, ea_asset_id = 2, ea_role = Some ''Supporting'',
          ea_notes = None\<rparr>],
      finding_templates = [example_template],
      findings =
        [example_finding 1 1 ''Unauthenticated Telnet Access'' ''High'',
         example_finding 2 1 ''Default credentials'' ''Critical'',
         example_finding 3 3 ''Unlabelled issue'' ''Severe''],
      finding_assets =
        [\<lparr>fa_id = 1, fa_finding_id = 1, fa_asset_id = 1\<rparr>,
         \<lparr>fa_id = 2, fa_finding_id = 2, fa_asset_id = 2\<rparr>],
      timeline_events =
        [\<lparr>te_id = 1, te_engagement_id = 1, te_user_id = Some 1, te_event_type = ''Kickoff'',
          te_summary = ''Kickoff call'', te_details = None, te_created_at = 0\<rparr>],
      comments =
        [\<lparr>cm_id = 1, cm_engagement_id = Some 1, cm_finding_id = None, cm_user_id = 1,
          cm_text = ''Scope agreed'', cm_created_at = 0\<rparr>,
         \<lparr>cm_id = 2, cm_engagement_id = None, cm_finding_id = Some 2, cm_user_id = 1,
          cm_text = ''Needs retest'', cm_created_at = 0\<rparr>]\<rparr>"

text \<open>A database with no row at all, and requests used as examples.\<close>

definition empty_db :: db where
  "empty_db =
     \<lparr>users = [], program_years = [], intake_requests = [], engagements = [], assets = [],
      engagement_assets = [], finding_templates = [], findings = [], finding_assets = [],
      timeline_events = [], comments = []\<rparr>"


definition example_finding_create :: finding_create where
  "example_finding_create =
     \<lparr>fc_title = ''SQL Injection in login'', fc_severity = ''High'', fc_description = None,
      fc_impact = None, fc_poc = None, fc_recommendation = None,
      fc_attack_techniques = None, fc_template_id = Some 1,
      fc_remediation_status = Some ''Not-Started'', fc_remediation_owner = None,
      fc_due_date = None\<rparr>"

definition example_event_create :: timeline_event_create where
  "example_event_create =
     \<lparr>tec_event_type = ''Note'', tec_summary = ''Follow-up'', tec_details = None\<rparr>"

section \<open>Properties\<close>

subsection \<open>Counters and comprehensions\<close>

lemma sum_counter_add: "sum_list (map snd (counter_add k c)) = sum_list (map snd c) + 1"
  by (induction k c rule: counter_add.induct) auto

lemma sum_fold_counter_add:
  "sum_list (map snd (fold counter_add ks c)) = sum_list (map snd c) + int (length ks)"
  by (induction ks arbitrary: c) (auto simp: sum_counter_add)

lemma sum_Counter: "sum_list (map snd (Counter ks)) = int (length ks)"
  by (simp add: Counter_def sum_fold_counter_add)

lemma keys_counter_add:
  "map fst (counter_add k c) = (if k \<in> fst ` set c then map fst c else map fst c @ [k])"
  by (induction k c rule: counter_add.induct) auto

lemma distinct_counter_add: "distinct (map fst c) \<Longrightarrow> distinct (map fst (counter_add k c))"
  by (simp add: keys_counter_add)

lemma distinct_fold_counter_add:
  "distinct (map fst c) \<Longrightarrow> distinct (map fst (fold counter_add ks c))"
  by (induction ks arbitrary: c) (auto simp: distinct_counter_add)

lemma distinct_Counter: "distinct (map fst (Counter ks))"
  by (simp add: Counter_def distinct_fold_counter_add)







lemma map_err_length: "map_err g xs = Inr ys \<Longrightarrow> length ys = length xs"
  by (induction xs arbitrary: ys) (auto split: sum.splits)

lemma map_err_total: "(\<And>x. x \<in> set xs \<Longrightarrow> \<exists>y. g x = Inr y) \<Longrightarrow> \<exists>ys. map_err g xs = Inr ys"
proof (induction xs)
  case Nil
  then show ?case by simp
next
  case (Cons x xs)
  obtain y where y: "g x = Inr y" using Cons.prems by auto
  obtain ys where ys: "map_err g xs = Inr ys" using Cons by auto
  show ?case by (simp add: y ys)
qed

subsection \<open>The report\<close>

lemma build_report_findings_match_summary:
  assumes "build_report d e = Inr r"
  shows "int (length (rep_findings r)) = sum_list (map snd (rep_findings_summary r))"
  using assms
  by (auto simp: build_report_def Let_def sum_Counter dest!: map_err_length
      split: sum.splits)

lemma finding_report_item_of_returns:
  assumes "\<forall>l \<in> set (finding_assets d). finding_asset_asset d l \<noteq> None"
  shows "\<exists>item. finding_report_item_of d f = Inr item"
proof -
  have "\<exists>ys. map_err (\<lambda>link. asset_summary_from_orm (finding_asset_asset d link))
          (finding_assets_of d f) = Inr ys"
    using assms
    by (intro map_err_total) (auto simp: finding_assets_of_def asset_summary_from_orm_def)
  then show ?thesis
    by (auto simp: finding_report_item_of_def)
qed

lemma get_engagement_report_returns:
  assumes "get_current_user d x_api_key = Inr u"
    and "find (\<lambda>e. eng_id e = engagement_id) (engagements d) = Some e"
    and "\<forall>ea \<in> set (engagement_assets d). engagement_asset_asset d ea \<noteq> None"
    and "\<forall>l \<in> set (finding_assets d). finding_asset_asset d l \<noteq> None"
  shows "\<exists>r. get_engagement_report d x_api_key engagement_id = Inr r"
proof -
  have "\<exists>ys. map_err (\<lambda>ea. asset_summary_from_orm (engagement_asset_asset d ea))
          (engagement_assets_of d e) = Inr ys"
    using assms(3)
    by (intro map_err_total) (auto simp: engagement_assets_of_def asset_summary_from_orm_def)
  then obtain scope_assets where s:
    "map_err (\<lambda>ea. asset_summary_from_orm (engagement_asset_asset d ea))
       (engagement_assets_of d e) = Inr scope_assets"
    by blast
  obtain items where i: "map_err (finding_report_item_of d) (engagement_findings d e) = Inr items"
    using map_err_total [of "engagement_findings d e" "finding_report_item_of d"]
      finding_report_item_of_returns [OF assms(4)]
    by blast
  show ?thesis
    using assms(1,2) s i by (simp add: get_engagement_report_def build_report_def Let_def)
qed

text \<open>
  C1.  Whenever the report operation produces a report, the number of entries of its
  detailed findings list is the sum of the counts of its severity histogram.
\<close>

theorem report_findings_match_summary:
  assumes "get_engagement_report d x_api_key engagement_id = Inr r"
  shows "int (length (rep_findings r)) = sum_list (map snd (rep_findings_summary r))"
  using assms
  by (auto simp: get_engagement_report_def dest: build_report_findings_match_summary
      split: sum.splits option.splits)

lemmas example_defs =
  example_db_def example_user_def example_engagement_def example_asset_def
  example_finding_def example_template_def

lemmas relationship_defs =
  engagement_program_year_def engagement_assets_of_def engagement_findings_def
  finding_assets_of_def engagement_asset_asset_def finding_asset_asset_def

lemma example_report:
  "(case get_engagement_report example_db None 1 of
      Inl err \<Rightarrow> False
    | Inr r \<Rightarrow> rep_findings_summary r = [(''High'', 1), (''Critical'', 1)]
               \<and> map fri_id (rep_findings r) = [1, 2])"
  by (simp add: get_engagement_report_def get_current_user_def truthy_def first_def
      build_report_def finding_report_item_of_def asset_summary_from_orm_def Counter_def
      example_defs relationship_defs)

theorem report_findings_match_summary_witness:
  "\<exists>r. get_engagement_report example_db None 1 = Inr r
       \<and> rep_findings_summary r = [(''High'', 1), (''Critical'', 1)]
       \<and> map fri_id (rep_findings r) = [1, 2]
       \<and> int (length (rep_findings r)) = sum_list (map snd (rep_findings_summary r))"
proof -
  obtain r where r: "get_engagement_report example_db None 1 = Inr r"
    and v: "rep_findings_summary r = [(''High'', 1), (''Critical'', 1)]"
           "map fri_id (rep_findings r) = [1, 2]"
    using example_report by (cases "get_engagement_report example_db None 1") auto
  have "int (length (rep_findings r)) = sum_list (map snd (rep_findings_summary r))"
    by (rule report_findings_match_summary [OF r])
  with r v show ?thesis by (intro exI [of _ r]) simp
qed

subsection \<open>Identity resolution without a credential\<close>

text \<open>
  C10.  With no credential header, identity resolution returns the first row of the
  users table, and on an empty table fails with status 500 and the detail
  "No users in database" (not with the 401 of an invalid credential).
\<close>

theorem no_credential_falls_back_to_first_user:
  "get_current_user d None =
     (case users d of
        [] \<Rightarrow> Inl (HTTPException 500 ''No users in database'')
      | u # _ \<Rightarrow> Inr u)"
  by (simp add: get_current_user_def truthy_def first_def split: list.splits)

theorem no_credential_falls_back_to_first_user_witness:
  "get_current_user empty_db None = Inl (HTTPException 500 ''No users in database'')
   \<and> get_current_user example_db None = Inr example_user"
  by (simp add: no_credential_falls_back_to_first_user empty_db_def example_db_def)

subsection \<open>The Markdown findings summary\<close>





subsection \<open>The exports of an engagement without findings\<close>

text \<open>
  C8.  For an engagement with zero findings (and a caller whose identity resolves), the
  CSV export is exactly one row, the fixed header of 14 columns, and the findings-summary
  section of the Markdown export is the literal line "No findings recorded." with no
  table and no detailed-findings section after it.  The Markdown export fails only when
  an in-scope asset link names no asset.
\<close>

theorem exports_without_findings:
  assumes "get_current_user d x_api_key = Inr u"
    and "find (\<lambda>e. eng_id e = engagement_id) (engagements d) = Some e"
    and "engagement_findings d e = []"
  shows "length csv_header = 14
    \<and> csv_rows d e = Inr [csv_header]
    \<and> export_engagement_csv d x_api_key engagement_id =
        Inr \<lparr>resp_content =
               ''Finding ID,Title,Severity,Status,Description,Impact,Recommendation,''
               @ ''Remediation Status,Remediation Owner,Due Date,Detection Status,''
               @ ''Risk Accepted,Affected Assets,ATT&CK Techniques'' @ [CHR 0x0D, CHR 0x0A],
             resp_media_type = ''text/csv'',
             resp_headers =
               [(''Content-Disposition'',
                 ''attachment; filename=engagement_'' @ str_int engagement_id
                   @ ''_findings.csv'')]\<rparr>
    \<and> md_findings_summary (engagement_findings d e) =
        [''## Findings Summary'', '''', ''No findings recorded.'', '''']
    \<and> export_engagement_markdown d x_api_key engagement_id =
        (case md_assets d e of
           Inl err \<Rightarrow> Inl err
         | Inr asset_lines \<Rightarrow>
             Inr \<lparr>resp_content =
                    join [CHR 0x0A]
                      (md_metadata d e @ md_exec_summary e @ md_scope e @ asset_lines
                       @ md_objectives e @ md_methodology e
                       @ [''## Findings Summary'', '''', ''No findings recorded.'', '''']
                       @ md_overall e),
                  resp_media_type = ''text/markdown'',
                  resp_headers =
                    [(''Content-Disposition'',
                      ''attachment; filename=engagement_'' @ str_int engagement_id
                        @ ''_report.md'')]\<rparr>)"
proof -
  have rows: "csv_rows d e = Inr [csv_header]"
    using assms(3) by (simp add: csv_rows_def)
  have line: "csv_writerow csv_header =
      ''Finding ID,Title,Severity,Status,Description,Impact,Recommendation,''
      @ ''Remediation Status,Remediation Owner,Due Date,Detection Status,''
      @ ''Risk Accepted,Affected Assets,ATT&CK Techniques'' @ [CHR 0x0D, CHR 0x0A]"
    by (simp add: csv_writerow_def csv_header_def csv_field_def csv_special_def)
  have csv: "export_engagement_csv d x_api_key engagement_id =
      Inr \<lparr>resp_content = csv_writerow csv_header,
           resp_media_type = ''text/csv'',
           resp_headers =
             [(''Content-Disposition'',
               ''attachment; filename=engagement_'' @ str_int engagement_id
                 @ ''_findings.csv'')]\<rparr>"
    using assms(1,2) rows by (simp add: export_engagement_csv_def)
  have summary: "md_findings_summary (engagement_findings d e) =
      [''## Findings Summary'', '''', ''No findings recorded.'', '''']"
    using assms(3) by (simp add: md_findings_summary_def Counter_def)
  have md: "export_engagement_markdown d x_api_key engagement_id =
      (case md_assets d e of
         Inl err \<Rightarrow> Inl err
       | Inr asset_lines \<Rightarrow>
           Inr \<lparr>resp_content =
                  join [CHR 0x0A]
                    (md_metadata d e @ md_exec_summary e @ md_scope e @ asset_lines
                     @ md_objectives e @ md_methodology e
                     @ [''## Findings Summary'', '''', ''No findings recorded.'', '''']
                     @ md_overall e),
                resp_media_type = ''text/markdown'',
                resp_headers =
                  [(''Content-Disposition'',
                    ''attachment; filename=engagement_'' @ str_int engagement_id
                      @ ''_report.md'')]\<rparr>)"
    using assms(1,2) summary
    by (simp add: export_engagement_markdown_def md_lines_def assms(3)
        md_detailed_findings_def split: sum.splits)
  have len: "length csv_header = 14"
    by (simp add: csv_header_def)
  show ?thesis
    using len rows csv line summary md by simp
qed

theorem exports_without_findings_witness:
  "get_current_user example_db None = Inr example_user
   \<and> find (\<lambda>e. eng_id e = 2) (engagements example_db) = Some (example_engagement 2 ''Not started'')
   \<and> engagement_findings example_db (example_engagement 2 ''Not started'') = []
   \<and> map_sum id resp_content (export_engagement_csv example_db None 2) =
       Inr (''Finding ID,Title,Severity,Status,Description,Impact,Recommendation,''
            @ ''Remediation Status,Remediation Owner,Due Date,Detection Status,''
            @ ''Risk Accepted,Affected Assets,ATT&CK Techniques'' @ [CHR 0x0D, CHR 0x0A])
   \<and> map_sum id resp_content (export_engagement_markdown example_db None 2) =
       Inr (join [CHR 0x0A]
         [''# Not started'', '''',
          ''## Engagement Metadata'', '''',
          ''- **Type**: PCI'',
          ''- **Status**: Planned'',
          ''- **Business Unit**: N/A'',
          ''- **Program Year**: 2025'',
          ''- **Start Date**: 2025-04-01'', '''',
          ''## Scope'', '''', ''Cardholder data environment'', '''',
          ''## Findings Summary'', '''', ''No findings recorded.'', ''''])"
proof -
  have u: "get_current_user example_db None = Inr example_user"
    by (simp add: get_current_user_def truthy_def first_def example_db_def)
  have e: "find (\<lambda>e. eng_id e = 2) (engagements example_db)
      = Some (example_engagement 2 ''Not started'')"
    by (simp add: example_defs)
  have f: "engagement_findings example_db (example_engagement 2 ''Not started'') = []"
    by (simp add: example_defs relationship_defs)
  have a: "md_assets example_db (example_engagement 2 ''Not started'') = Inr []"
    by (simp add: md_assets_def example_defs relationship_defs)
  note t = exports_without_findings [OF u e f]
  have csv: "map_sum id resp_content (export_engagement_csv example_db None 2) =
       Inr (''Finding ID,Title,Severity,Status,Description,Impact,Recommendation,''
            @ ''Remediation Status,Remediation Owner,Due Date,Detection Status,''
            @ ''Risk Accepted,Affected Assets,ATT&CK Techniques'' @ [CHR 0x0D, CHR 0x0A])"
    using t by simp
  have t5: "export_engagement_markdown example_db None 2 =
      Inr \<lparr>resp_content =
             join [CHR 0x0A]
               (md_metadata example_db (example_engagement 2 ''Not started'')
                @ md_exec_summary (example_engagement 2 ''Not started'')
                @ md_scope (example_engagement 2 ''Not started'')
                @ md_objectives (example_engagement 2 ''Not started'')
                @ md_methodology (example_engagement 2 ''Not started'')
                @ [''## Findings Summary'', '''', ''No findings recorded.'', '''']
                @ md_overall (example_engagement 2 ''Not started'')),
           resp_media_type = ''text/markdown'',
           resp_headers =
             [(''Content-Disposition'',
               ''attachment; filename=engagement_'' @ str_int 2 @ ''_report.md'')]\<rparr>"
    using t by (simp add: a)
  have md: "map_sum id resp_content (export_engagement_markdown example_db None 2) =
       Inr (join [CHR 0x0A]
         [''# Not started'', '''',
          ''## Engagement Metadata'', '''',
          ''- **Type**: PCI'',
          ''- **Status**: Planned'',
          ''- **Business Unit**: N/A'',
          ''- **Program Year**: 2025'',
          ''- **Start Date**: 2025-04-01'', '''',
          ''## Scope'', '''', ''Cardholder data environment'', '''',
          ''## Findings Summary'', '''', ''No findings recorded.'', ''''])"
    by (subst t5)
      (simp add: md_metadata_def md_exec_summary_def md_scope_def md_objectives_def
        md_methodology_def md_overall_def when_truthy_def when_date_def or_else_def
        isoformat_def zfill_def str_int_def str_nat.simps example_defs relationship_defs)
  show ?thesis using u e f csv md by simp
qed

subsection \<open>The rows of the CSV export\<close>







subsection \<open>Get-or-create of the program year\<close>









subsection \<open>Regenerating a credential\<close>

lemma find_None_iff_list_ex: "find P xs = None \<longleftrightarrow> \<not> list_ex P xs"
  by (induction xs) auto

lemma distinct_map_filter_unique:
  assumes "distinct (List.map_filter g xs)" and "x \<in> set xs" and "y \<in> set xs"
    and "g x = Some k" and "g y = Some k"
  shows "x = y"
  using assms
proof (induction xs)
  case Nil
  then show ?case by simp
next
  case (Cons z zs)
  have in_set: "\<And>w. w \<in> set zs \<Longrightarrow> g w = Some k \<Longrightarrow> k \<in> set (List.map_filter g zs)"
    by (force simp: List.map_filter_def)
  show ?case
  proof (cases "g z")
    case None
    with Cons show ?thesis by (auto simp: List.map_filter_simps)
  next
    case (Some v)
    with Cons.prems have d: "v \<notin> set (List.map_filter g zs)" "distinct (List.map_filter g zs)"
      by (simp_all add: List.map_filter_simps)
    show ?thesis
      using Cons.prems(2-5) Cons.IH [OF d(2)] d(1) Some in_set by auto
  qed
qed

lemma find_Some_in_set: "find P xs = Some x \<Longrightarrow> x \<in> set xs \<and> P x"
  by (induction xs) (auto split: if_splits)

lemma find_map_update_first:
  assumes "\<And>u. u \<in> set xs \<Longrightarrow> Q (h u) \<longleftrightarrow> P u" and "list_ex P xs"
  shows "\<exists>u. u \<in> set xs \<and> P u \<and> find Q (map h xs) = Some (h u)"
  using assms by (induction xs) auto

text \<open>
  C6.  After the admin-only regeneration has succeeded for a user whose previous
  credential is \<open>old\<close>, a lookup by \<open>old\<close> fails with 401 "Invalid API key" (no user is
  returned), and a lookup by the newly issued value returns that user, who now holds
  it.  The statement is for a users table that meets its declared uniqueness of
  credentials, a presented credential that is not the empty header, and a drawn token
  that is not empty and differs from the previous one, as \<^verbatim>\<open>secrets.token_urlsafe(32)\<close>
  gives.
\<close>

theorem regenerate_api_key_rotates_credential:
  assumes "regenerate_api_key token d x_api_key user_id = Inr (d', resp)"
    and "find (\<lambda>u. usr_id u = user_id) (users d) = Some user"
    and "usr_api_key user = Some old"
    and "distinct (List.map_filter usr_api_key (users d))"
    and "old \<noteq> []" and "token \<noteq> []" and "token \<noteq> old"
  shows "get_current_user d' (Some old) = Inl (HTTPException 401 ''Invalid API key'')
    \<and> (\<exists>u. get_current_user d' (Some token) = Inr u \<and> usr_id u = user_id
            \<and> usr_api_key u = Some token)
    \<and> akr_api_key resp = token \<and> akr_user_id resp = user_id"
proof -
  let ?h = "\<lambda>u. if usr_id u = user_id then u\<lparr>usr_api_key := Some token\<rparr> else u"
  from assms(1) obtain cu where cu: "get_current_user d x_api_key = Inr cu"
    by (cases "get_current_user d x_api_key") (simp_all add: regenerate_api_key_def)
  from assms(1) cu have admin: "usr_role cu = ''admin''"
    by (simp add: regenerate_api_key_def split: if_splits)
  from assms(1,2) cu admin
  have fresh: "\<not> list_ex (\<lambda>u. usr_id u \<noteq> user_id \<and> usr_api_key u = Some token) (users d)"
    by (simp add: regenerate_api_key_def Let_def split: if_splits)
  from assms(1,2) cu admin fresh
  have eq: "d' = d\<lparr>users := map ?h (users d)\<rparr>" "akr_api_key resp = token"
    "akr_user_id resp = usr_id user"
    by (auto simp add: regenerate_api_key_def Let_def)
  from eq(1) have d': "users d' = map ?h (users d)"
    by simp
  note resp = eq(2,3)
  from find_Some_in_set [OF assms(2)] have user: "user \<in> set (users d)" "usr_id user = user_id"
    by simp_all
  have no_old: "\<not> list_ex (\<lambda>u. usr_api_key u = Some old) (map ?h (users d))"
  proof
    assume "list_ex (\<lambda>u. usr_api_key u = Some old) (map ?h (users d))"
    then obtain v where v: "v \<in> set (users d)" "usr_api_key (?h v) = Some old"
      by (auto simp: list_ex_iff)
    show False
    proof (cases "usr_id v = user_id")
      case True
      with v(2) assms(7) show False by simp
    next
      case False
      with v(2) have "usr_api_key v = Some old" by simp
      from distinct_map_filter_unique [OF assms(4) v(1) user(1) this assms(3)] False user(2)
      show False by simp
    qed
  qed
  have old: "get_current_user d' (Some old) = Inl (HTTPException 401 ''Invalid API key'')"
    using no_old assms(5)
    by (simp add: get_current_user_def truthy_def d' find_None_iff_list_ex [symmetric])
  have q: "\<And>u. u \<in> set (users d) \<Longrightarrow>
      (usr_api_key (?h u) = Some token) \<longleftrightarrow> (usr_id u = user_id)"
    using fresh by (auto simp: list_ex_iff)
  have ex: "list_ex (\<lambda>u. usr_id u = user_id) (users d)"
    using user by (auto simp: list_ex_iff)
  from find_map_update_first [of "users d" "\<lambda>u. usr_api_key u = Some token" ?h
      "\<lambda>u. usr_id u = user_id", OF q ex]
  obtain w where w: "usr_id w = user_id"
    "find (\<lambda>u. usr_api_key u = Some token) (map ?h (users d)) = Some (?h w)"
    by blast
  have new: "get_current_user d' (Some token) = Inr (?h w)"
    using w(2) assms(6) by (simp add: get_current_user_def truthy_def d')
  have "usr_id (?h w) = user_id \<and> usr_api_key (?h w) = Some token"
    using w(1) by simp
  with new have "\<exists>u. get_current_user d' (Some token) = Inr u \<and> usr_id u = user_id
      \<and> usr_api_key u = Some token"
    by blast
  with old resp user(2) show ?thesis by simp
qed

lemma example_regenerate:
  "(case regenerate_api_key ''new-key'' example_db (Some ''old-key'') 1 of
      Inl err \<Rightarrow> False
    | Inr (d', resp) \<Rightarrow> map usr_api_key (users d') = [Some ''new-key''])"
  by (simp add: regenerate_api_key_def get_current_user_def truthy_def Let_def example_defs)

theorem regenerate_api_key_rotates_credential_witness:
  "\<exists>d' resp u.
     regenerate_api_key ''new-key'' example_db (Some ''old-key'') 1 = Inr (d', resp)
     \<and> find (\<lambda>u. usr_id u = 1) (users example_db) = Some example_user
     \<and> usr_api_key example_user = Some ''old-key''
     \<and> distinct (List.map_filter usr_api_key (users example_db))
     \<and> get_current_user example_db (Some ''old-key'') = Inr example_user
     \<and> get_current_user d' (Some ''old-key'') = Inl (HTTPException 401 ''Invalid API key'')
     \<and> get_current_user d' (Some ''new-key'') = Inr u \<and> usr_id u = 1"
proof -
  obtain d' resp where c:
    "regenerate_api_key ''new-key'' example_db (Some ''old-key'') 1 = Inr (d', resp)"
    using example_regenerate
    by (cases "regenerate_api_key ''new-key'' example_db (Some ''old-key'') 1") auto
  have f: "find (\<lambda>u. usr_id u = 1) (users example_db) = Some example_user"
    by (simp add: example_defs)
  have k: "usr_api_key example_user = Some ''old-key''"
    by (simp add: example_user_def)
  have u: "distinct (List.map_filter usr_api_key (users example_db))"
    by (simp add: example_defs List.map_filter_simps)
  have before: "get_current_user example_db (Some ''old-key'') = Inr example_user"
    by (simp add: get_current_user_def truthy_def example_defs)
  have n: "''old-key'' \<noteq> []" "''new-key'' \<noteq> []" "''new-key'' \<noteq> ''old-key''"
    by simp_all
  note t = regenerate_api_key_rotates_credential [OF c f k u n]
  from t have r: "get_current_user d' (Some ''old-key'')
      = Inl (HTTPException 401 ''Invalid API key'')"
    by (rule conjunct1)
  from t obtain v where v: "get_current_user d' (Some ''new-key'') = Inr v" "usr_id v = 1"
    by blast
  show ?thesis
  proof (intro exI conjI)
    show "regenerate_api_key ''new-key'' example_db (Some ''old-key'') 1 = Inr (d', resp)"
      by (rule c)
    show "get_current_user d' (Some ''new-key'') = Inr v"
      by (rule v)
  qed (rule f k u before r v)+
qed

subsection \<open>Findings and templates\<close>

lemma delete_finding_template_findings:
  assumes "delete_finding_template d k t = Inr d'"
  shows "findings d' = findings d"
proof (cases "get_current_user d k")
  case (Inl err)
  with assms show ?thesis by (simp add: delete_finding_template_def)
next
  case (Inr cu)
  with assms show ?thesis
    by (cases "find (\<lambda>x. ft_id x = t) (finding_templates d)")
      (auto simp: delete_finding_template_def)
qed

text \<open>
  C7 (as amended).  A finding created with a reference to a FindingTemplate records the
  template's identifier and nothing else of it: its description, impact and
  recommendation are the ones of the create request, whatever the template holds, and
  the table of templates is not read or changed.  Deleting the template afterwards
  leaves the findings table as it is.
\<close>

theorem create_finding_takes_text_from_request:
  assumes "create_finding now d x_api_key engagement_id finding_in = Inr (d', f)"
  shows "findings d' = findings d @ [f]
    \<and> finding_templates d' = finding_templates d
    \<and> fnd_template_id f = fc_template_id finding_in
    \<and> fnd_description f = fc_description finding_in
    \<and> fnd_impact f = fc_impact finding_in
    \<and> fnd_recommendation f = fc_recommendation finding_in
    \<and> (\<forall>d'' k t. delete_finding_template d' k t = Inr d'' \<longrightarrow> findings d'' = findings d')"
proof -
  from assms obtain cu where cu: "get_current_user d x_api_key = Inr cu"
    by (cases "get_current_user d x_api_key") (simp_all add: create_finding_def)
  from assms cu obtain e where e: "find (\<lambda>e. eng_id e = engagement_id) (engagements d) = Some e"
    by (cases "find (\<lambda>e. eng_id e = engagement_id) (engagements d)")
      (simp_all add: create_finding_def)
  from assms cu e have
    "findings d' = findings d @ [f]"
    "finding_templates d' = finding_templates d"
    "fnd_template_id f = fc_template_id finding_in"
    "fnd_description f = fc_description finding_in"
    "fnd_impact f = fc_impact finding_in"
    "fnd_recommendation f = fc_recommendation finding_in"
    by (auto simp add: create_finding_def Let_def)
  moreover have "\<forall>d'' k t. delete_finding_template d' k t = Inr d'' \<longrightarrow> findings d'' = findings d'"
    using delete_finding_template_findings by blast
  ultimately show ?thesis by simp
qed

lemma example_create_finding:
  "(case create_finding 5 example_db None 2 example_finding_create of
      Inl err \<Rightarrow> False
    | Inr (d', f) \<Rightarrow>
        fnd_id f = 4 \<and> fnd_template_id f = Some 1 \<and> fnd_description f = None
        \<and> fnd_impact f = None \<and> fnd_recommendation f = None
        \<and> map fnd_id (findings d') = [1, 2, 3, 4])"
  by (simp add: create_finding_def get_current_user_def truthy_def first_def next_id_def
      Let_def or_else_def example_finding_create_def example_defs)

theorem create_finding_takes_text_from_request_witness:
  "\<exists>d' f. create_finding 5 example_db None 2 example_finding_create = Inr (d', f)
     \<and> fnd_template_id f = Some 1
     \<and> fnd_description f = None
     \<and> findings d' = findings example_db @ [f]
     \<and> (case delete_finding_template d' None 1 of
          Inl err \<Rightarrow> False
        | Inr d'' \<Rightarrow> findings d'' = findings d' \<and> finding_templates d'' = [])"
proof -
  obtain d' f where c: "create_finding 5 example_db None 2 example_finding_create = Inr (d', f)"
    using example_create_finding
    by (cases "create_finding 5 example_db None 2 example_finding_create") auto
  note t = create_finding_takes_text_from_request [OF c]
  have tid: "fnd_template_id f = Some 1" "fnd_description f = None"
    using t by (simp_all add: example_finding_create_def)
  have fs: "findings d' = findings example_db @ [f]"
    using t by simp
  have ft: "finding_templates d' = [example_template]" "users d' = [example_user]"
    using c
    by (auto simp add: create_finding_def get_current_user_def truthy_def first_def Let_def
        example_defs)
  have "get_current_user d' None = Inr example_user"
    by (simp add: get_current_user_def truthy_def first_def ft)
  then obtain d'' where del: "delete_finding_template d' None 1 = Inr d''"
    and empty: "finding_templates d'' = []"
    by (simp add: delete_finding_template_def ft example_template_def)
  from t del have "findings d'' = findings d'"
    by blast
  with del empty have "(case delete_finding_template d' None 1 of
          Inl err \<Rightarrow> False
        | Inr d'' \<Rightarrow> findings d'' = findings d' \<and> finding_templates d'' = [])"
    by simp
  with c tid fs show ?thesis by blast
qed

text \<open>
  The claim as the spec states it fails on the example database: template 1 holds a
  canonical description, impact and recommendation, and a finding created with
  \<^verbatim>\<open>template_id = 1\<close> and no text of its own has none of them.
\<close>

theorem create_finding_does_not_copy_template:
  "map ft_description (finding_templates example_db) = [Some ''Canonical description'']
   \<and> map ft_id (finding_templates example_db) = [1]
   \<and> fc_template_id example_finding_create = Some 1
   \<and> map_sum id (\<lambda>(d', f). (fnd_template_id f, fnd_description f, fnd_impact f,
                              fnd_recommendation f))
        (create_finding 5 example_db None 2 example_finding_create)
      = Inr (Some 1, None, None, None)"
  by (simp add: create_finding_def get_current_user_def truthy_def first_def next_id_def
      Let_def or_else_def example_finding_create_def example_defs)

subsection \<open>Deleting an engagement\<close>

text \<open>
  C2.  Deleting an engagement that exists succeeds and is one transition of the
  database, after which no EngagementAsset, Finding, TimelineEvent or Comment row
  carries its identifier, no FindingAsset or Comment row refers to one of its former
  findings, and the engagement's own row is gone; assets and users are untouched.
\<close>

theorem delete_engagement_leaves_no_orphans:
  assumes "find (\<lambda>e. eng_id e = engagement_id) (engagements d) = Some e"
  shows "\<exists>d'. delete_engagement d engagement_id = Inr d'
    \<and> filter (\<lambda>x. eng_id x = engagement_id) (engagements d') = []
    \<and> filter (\<lambda>ea. ea_engagement_id ea = engagement_id) (engagement_assets d') = []
    \<and> filter (\<lambda>f. fnd_engagement_id f = engagement_id) (findings d') = []
    \<and> filter (\<lambda>l. fa_finding_id l
                  \<in> fnd_id ` {f \<in> set (findings d). fnd_engagement_id f = engagement_id})
        (finding_assets d') = []
    \<and> filter (\<lambda>t. te_engagement_id t = engagement_id) (timeline_events d') = []
    \<and> filter (\<lambda>c. cm_engagement_id c = Some engagement_id) (comments d') = []
    \<and> filter (\<lambda>c. cm_finding_id c
                  \<in> Some ` fnd_id ` {f \<in> set (findings d). fnd_engagement_id f = engagement_id})
        (comments d') = []
    \<and> assets d' = assets d \<and> users d' = users d"
proof -
  have id: "eng_id e = engagement_id"
    using find_Some_in_set [OF assms] by simp
  let ?fs = "engagement_findings d e"
  let ?ls = "concat (map (finding_assets_of d) ?fs)"
  let ?cs = "engagement_comments d e @ concat (map (finding_comments d) ?fs)"
  obtain d' where del: "delete_engagement d engagement_id = Inr d'"
    and e: "engagements d' = filter (\<lambda>x. eng_id x \<noteq> eng_id e) (engagements d)"
    and ea: "engagement_assets d'
        = filter (\<lambda>ea. ea \<notin> set (engagement_assets_of d e)) (engagement_assets d)"
    and f: "findings d' = filter (\<lambda>f. f \<notin> set ?fs) (findings d)"
    and fa: "finding_assets d' = filter (\<lambda>l. l \<notin> set ?ls) (finding_assets d)"
    and te: "timeline_events d'
        = filter (\<lambda>t. t \<notin> set (engagement_timeline_events d e)) (timeline_events d)"
    and cm: "comments d' = filter (\<lambda>c. c \<notin> set ?cs) (comments d)"
    and rest: "assets d' = assets d" "users d' = users d"
    using assms by (simp add: delete_engagement_def Let_def)
  have 1: "filter (\<lambda>x. eng_id x = engagement_id) (engagements d') = []"
    by (simp add: e id filter_empty_conv)
  have 2: "filter (\<lambda>ea. ea_engagement_id ea = engagement_id) (engagement_assets d') = []"
    by (simp add: ea id filter_empty_conv engagement_assets_of_def)
  have 3: "filter (\<lambda>f. fnd_engagement_id f = engagement_id) (findings d') = []"
    by (simp add: f id filter_empty_conv engagement_findings_def)
  have 4: "filter (\<lambda>l. fa_finding_id l
                  \<in> fnd_id ` {f \<in> set (findings d). fnd_engagement_id f = engagement_id})
        (finding_assets d') = []"
    by (auto simp: fa id filter_empty_conv engagement_findings_def finding_assets_of_def)
  have 5: "filter (\<lambda>t. te_engagement_id t = engagement_id) (timeline_events d') = []"
    by (simp add: te id filter_empty_conv engagement_timeline_events_def)
  have 6: "filter (\<lambda>c. cm_engagement_id c = Some engagement_id) (comments d') = []"
    by (auto simp: cm id filter_empty_conv engagement_comments_def)
  have 7: "filter (\<lambda>c. cm_finding_id c
                  \<in> Some ` fnd_id ` {f \<in> set (findings d). fnd_engagement_id f = engagement_id})
        (comments d') = []"
    by (auto simp: cm id filter_empty_conv engagement_findings_def finding_comments_def)
  show ?thesis
    using del 1 2 3 4 5 6 7 rest by blast
qed

lemma example_delete:
  "(case delete_engagement example_db 1 of
      Inl err \<Rightarrow> False
    | Inr d' \<Rightarrow>
        map eng_id (engagements d') = [2, 3] \<and> engagement_assets d' = []
        \<and> map fnd_id (findings d') = [3] \<and> finding_assets d' = []
        \<and> timeline_events d' = [] \<and> comments d' = []
        \<and> map ast_id (assets d') = [1, 2]
        \<and> map ir_linked_engagement_id (intake_requests d') = [None])"
  by (simp add: delete_engagement_def Let_def example_defs relationship_defs
      engagement_timeline_events_def engagement_comments_def finding_comments_def
      engagement_intake_request_def)

theorem delete_engagement_leaves_no_orphans_witness:
  "\<exists>d'. delete_engagement example_db 1 = Inr d'
     \<and> find (\<lambda>e. eng_id e = 1) (engagements example_db)
         = Some (example_engagement 1 ''Q2 2025 PCI Network Test'')
     \<and> map fnd_id (filter (\<lambda>f. fnd_engagement_id f = 1) (findings example_db)) = [1, 2]
     \<and> length (comments example_db) = 2
     \<and> filter (\<lambda>f. fnd_engagement_id f = 1) (findings d') = []
     \<and> map fnd_id (findings d') = [3]
     \<and> engagement_assets d' = [] \<and> finding_assets d' = []
     \<and> timeline_events d' = [] \<and> comments d' = []"
proof -
  have f: "find (\<lambda>e. eng_id e = 1) (engagements example_db)
      = Some (example_engagement 1 ''Q2 2025 PCI Network Test'')"
    by (simp add: example_defs)
  from delete_engagement_leaves_no_orphans [OF f]
  obtain d' where d': "delete_engagement example_db 1 = Inr d'"
    and none: "filter (\<lambda>f. fnd_engagement_id f = 1) (findings d') = []"
    by blast
  from example_delete d'
  have v: "map fnd_id (findings d') = [3]" "engagement_assets d' = []" "finding_assets d' = []"
    "timeline_events d' = []" "comments d' = []"
    by simp_all
  have b: "map fnd_id (filter (\<lambda>f. fnd_engagement_id f = 1) (findings example_db)) = [1, 2]"
    "length (comments example_db) = 2"
    by (simp_all add: example_defs)
  show ?thesis
  proof (intro exI conjI)
    show "delete_engagement example_db 1 = Inr d'" by (rule d')
  qed (rule f b none v)+
qed

subsection \<open>Lookups by an identifier that does not resolve\<close>

lemma engagement_lookup_not_found:
  assumes "get_current_user d x_api_key = Inr u"
    and "find (\<lambda>e. eng_id e = engagement_id) (engagements d) = None"
  shows "get_engagement_report d x_api_key engagement_id
           = Inl (HTTPException 404 ''Engagement not found'')"
    and "export_engagement_csv d x_api_key engagement_id
           = Inl (HTTPException 404 ''Engagement not found'')"
    and "export_engagement_markdown d x_api_key engagement_id
           = Inl (HTTPException 404 ''Engagement not found'')"
    and "create_finding now d x_api_key engagement_id finding_in
           = Inl (HTTPException 404 ''Engagement not found'')"
    and "list_findings_for_engagement d x_api_key engagement_id
           = Inl (HTTPException 404 ''Engagement not found'')"
    and "add_timeline_event now d x_api_key engagement_id event_in
           = Inl (HTTPException 404 ''Engagement not found'')"
    and "add_engagement_comment now d x_api_key engagement_id txt
           = Inl (HTTPException 404 ''Engagement not found'')"
  using assms
  by (simp_all add: get_engagement_report_def export_engagement_csv_def
      export_engagement_markdown_def create_finding_def list_findings_for_engagement_def
      add_timeline_event_def add_engagement_comment_def)

lemma finding_template_lookup_not_found:
  assumes "get_current_user d x_api_key = Inr u"
    and "find (\<lambda>t. ft_id t = template_id) (finding_templates d) = None"
  shows "get_finding_template d x_api_key template_id
           = Inl (HTTPException 404 ''Finding template not found'')"
    and "delete_finding_template d x_api_key template_id
           = Inl (HTTPException 404 ''Finding template not found'')"
  using assms by (simp_all add: get_finding_template_def delete_finding_template_def)

lemma list_timeline_events_never_not_found:
  assumes "get_current_user d x_api_key = Inr u"
  shows "list_timeline_events d x_api_key engagement_id =
     Inr (sort_key te_created_at
            (filter (\<lambda>t. te_engagement_id t = engagement_id) (timeline_events d)))"
  using assms by (simp add: list_timeline_events_def)

text \<open>
  C5, at the failing input.  The example database has no engagement 999.  Logging a
  timeline event on it and listing its findings both fail with 404, but listing its
  timeline events answers with the empty list: the handler performs no lookup of the
  engagement.
\<close>

theorem list_timeline_events_unknown_engagement:
  "find (\<lambda>e. eng_id e = 999) (engagements example_db) = None
   \<and> add_timeline_event 9 example_db None 999 example_event_create
       = Inl (HTTPException 404 ''Engagement not found'')
   \<and> list_findings_for_engagement example_db None 999
       = Inl (HTTPException 404 ''Engagement not found'')
   \<and> list_timeline_events example_db None 999 = Inr []"
  by (simp add: add_timeline_event_def list_findings_for_engagement_def
      list_timeline_events_def get_current_user_def truthy_def first_def example_defs)

end
